theory Spec2Isabelle
  imports Complex_Main "HOL-Library.List_Lexorder" "HOL-Library.Char_ord"
begin

section \<open>Conventions of the embedding\<close>

text \<open>
  The program is Python. Its \<^verbatim>\<open>float\<close> values (prices, timestamps read from
  \<^verbatim>\<open>time.time()\<close>) are modelled as \<^typ>\<open>real\<close>: the theorems below are about the
  arithmetic the code writes down, not about IEEE rounding. \<^verbatim>\<open>None\<close> is the \<open>None\<close> of an
  \<open>option\<close> type, a raised exception is a value of its own, and everything a function does
  to the outside (HTTP requests, \<^verbatim>\<open>time.sleep\<close>) is recorded in an explicit world that is
  passed through.
\<close>

datatype py_error = ZeroDivisionError | ValueError | TypeError

section \<open>The world outside the process\<close>

text \<open>
  A candle of \<^verbatim>\<open>get_price_data\<close>: the dict with keys \<^verbatim>\<open>datetime, open, high, low, close,
  volume\<close> (the field \<open>open_price\<close> is the key \<^verbatim>\<open>open\<close>, a name HOL already uses).
\<close>

record candle =
  datetime :: real
  open_price :: real
  high :: real
  low :: real
  close :: real
  volume :: real

text \<open>
  One element of the \<^verbatim>\<open>values\<close> array of a time-series reply, as the parsing loop of
  \<^verbatim>\<open>get_price_data\<close> sees it: it converts to a candle, or the conversion raises
  \<^verbatim>\<open>ValueError\<close>/\<^verbatim>\<open>KeyError\<close> (the element is skipped), or it raises something else (the
  outer handler answers \<^verbatim>\<open>None\<close>).
\<close>

datatype raw_item = Parsed candle | Unparsable | Broken

text \<open>
  The decoded JSON of a reply, as far as the two fetchers look at it: whether
  \<^verbatim>\<open>data["status"] == "error"\<close>, the \<^verbatim>\<open>values\<close> array when there is one, and the rest of the
  document kept opaque.
\<close>

record json_doc =
  status_error :: bool
  values_field :: "raw_item list option"
  content :: string

text \<open>
  What \<^verbatim>\<open>requests.get\<close> does: it raises (timeout, connection error), or it returns a
  response with a status code and a body that \<^verbatim>\<open>response.json()\<close> decodes or fails to decode.
\<close>

datatype http_reply = ConnectionFailed | Reply nat "json_doc option"

datatype event = Sleep real | HttpGet string string "string option"

text \<open>
  The world: the clock \<^verbatim>\<open>time.time()\<close> reads, the replies the provider will give to the
  next requests, in order, and the trace of what the process has done so far.
  \<^verbatim>\<open>time.sleep(d)\<close> moves the clock by \<open>d\<close>; a request is logged with its endpoint, symbol
  and interval.
\<close>

record world =
  clock :: real
  replies :: "http_reply list"
  trace :: "event list"

definition sleep :: "real \<Rightarrow> world \<Rightarrow> world" where
  "sleep d w = w\<lparr>clock := clock w + d, trace := trace w @ [Sleep d]\<rparr>"

definition requests_get :: "string \<Rightarrow> string \<Rightarrow> string option \<Rightarrow> world \<Rightarrow> http_reply \<times> world" where
  "requests_get endpoint symbol interval w =
     (case replies w of
        [] \<Rightarrow> (ConnectionFailed, w\<lparr>trace := trace w @ [HttpGet endpoint symbol interval]\<rparr>)
      | r # rs \<Rightarrow> (r, w\<lparr>replies := rs, trace := trace w @ [HttpGet endpoint symbol interval]\<rparr>))"

text \<open>\<^verbatim>\<open>response.raise_for_status()\<close> raises on a 4xx or 5xx status code.\<close>

definition raise_for_status :: "nat \<Rightarrow> bool" where
  "raise_for_status code = (400 \<le> code \<and> code < 600)"

section \<open>The TTL cache: \<^verbatim>\<open>MarketDataAggregator._get_cached_data\<close>\<close>

text \<open>
  What calling \<^verbatim>\<open>fetch_func\<close> gives: it raises an exception (one the handler
  \<^verbatim>\<open>except Exception\<close> catches), or it returns a value, which may be \<^verbatim>\<open>None\<close>.
  A fetch function acts on the world, so it is a function from the world to its outcome and
  the world it leaves.
\<close>

datatype 'v fetch_outcome = Raises | Returns "'v option"

type_synonym 'v fetch_func = "world \<Rightarrow> 'v fetch_outcome \<times> world"

text \<open>The two dicts of the aggregator, \<^verbatim>\<open>self.cache\<close> and \<^verbatim>\<open>self.cache_timestamps\<close>.\<close>

record 'v aggregator =
  cache :: "string \<rightharpoonup> 'v"
  cache_timestamps :: "string \<rightharpoonup> real"

text \<open>
  The outcome of one call: the returned value, the aggregator and the world after the call,
  and how many times the call invoked \<^verbatim>\<open>fetch_func\<close> (instrumentation: the source does not
  count, the model does, to state that a call did not fetch).
\<close>

record 'v cached_call =
  returned :: "'v option"
  agg_after :: "'v aggregator"
  world_after :: world
  fetch_calls :: nat

text \<open>
  The test of the first \<^verbatim>\<open>if\<close>: the key is in both dicts and
  \<^verbatim>\<open>now - self.cache_timestamps[key] < ttl\<close>.
\<close>

definition fresh :: "'v aggregator \<Rightarrow> string \<Rightarrow> real \<Rightarrow> real \<Rightarrow> bool" where
  "fresh a key ttl now =
     (case cache a key of
        None \<Rightarrow> False
      | Some _ \<Rightarrow> (case cache_timestamps a key of None \<Rightarrow> False | Some ts \<Rightarrow> now - ts < ttl))"

text \<open>
  \<^verbatim>\<open>_get_cached_data(key, ttl, fetch_func)\<close> (an Isabelle name cannot start with an
  underscore). \<^verbatim>\<open>now\<close> is read first. A fresh entry is returned as it is. Otherwise the
  fetch function is called: a value that \<^verbatim>\<open>is not None\<close> is stored with the timestamp
  \<^verbatim>\<open>now\<close> and returned; after \<^verbatim>\<open>None\<close> or an exception the call returns
  \<^verbatim>\<open>self.cache.get(key)\<close>.
\<close>

definition get_cached_data ::
  "'v aggregator \<Rightarrow> string \<Rightarrow> real \<Rightarrow> 'v fetch_func \<Rightarrow> world \<Rightarrow> 'v cached_call" where
  "get_cached_data a key ttl fetch_func w =
     (let now = clock w in
      if fresh a key ttl now
      then \<lparr>returned = cache a key, agg_after = a, world_after = w, fetch_calls = 0\<rparr>
      else
        (case fetch_func w of
           (Returns (Some data), w') \<Rightarrow>
             \<lparr>returned = Some data,
              agg_after = a\<lparr>cache := (cache a)(key \<mapsto> data),
                            cache_timestamps := (cache_timestamps a)(key \<mapsto> now)\<rparr>,
              world_after = w', fetch_calls = 1\<rparr>
         | (Returns None, w') \<Rightarrow>
             \<lparr>returned = cache a key, agg_after = a, world_after = w', fetch_calls = 1\<rparr>
         | (Raises, w') \<Rightarrow>
             \<lparr>returned = cache a key, agg_after = a, world_after = w', fetch_calls = 1\<rparr>))"

section \<open>The price provider: \<^verbatim>\<open>TwelveDataFetcher\<close>\<close>

text \<open>
  After the request: \<^verbatim>\<open>raise_for_status()\<close>, then \<^verbatim>\<open>response.json()\<close>, then the check
  for \<^verbatim>\<open>data["status"] == "error"\<close>. Every exception ends in the handler
  \<^verbatim>\<open>except Exception\<close> of the fetcher, which returns \<^verbatim>\<open>None\<close>.
\<close>

definition checked_json :: "nat \<Rightarrow> json_doc option \<Rightarrow> json_doc option" where
  "checked_json code body =
     (if raise_for_status code then None
      else case body of
             None \<Rightarrow> None
           | Some data \<Rightarrow> if status_error data then None else Some data)"

text \<open>
  \<^verbatim>\<open>get_quote(symbol)\<close>: one request; if the status code is 429 the process sleeps 61
  seconds and sends the same request once more; the reply then in hand is checked.
\<close>

definition get_quote :: "string \<Rightarrow> world \<Rightarrow> json_doc option \<times> world" where
  "get_quote symbol w =
     (case requests_get ''/quote'' symbol None w of
        (ConnectionFailed, w1) \<Rightarrow> (None, w1)
      | (Reply code body, w1) \<Rightarrow>
          if code = 429
          then (case requests_get ''/quote'' symbol None (sleep 61 w1) of
                  (ConnectionFailed, w2) \<Rightarrow> (None, w2)
                | (Reply code2 body2, w2) \<Rightarrow> (checked_json code2 body2, w2))
          else (checked_json code body, w1))"

text \<open>
  The loop over \<^verbatim>\<open>data["values"]\<close>: an element that raises \<^verbatim>\<open>ValueError\<close> or
  \<^verbatim>\<open>KeyError\<close> is skipped, any other exception leaves the function through the outer
  handler.
\<close>

fun parse_values :: "raw_item list \<Rightarrow> candle list option" where
  "parse_values [] = Some []"
| "parse_values (Parsed c # items) = map_option ((#) c) (parse_values items)"
| "parse_values (Unparsable # items) = parse_values items"
| "parse_values (Broken # items) = None"

text \<open>
  \<^verbatim>\<open>get_price_data(symbol, interval, outputsize)\<close>: one request, no look at the status
  code other than \<^verbatim>\<open>raise_for_status()\<close>; the candles are sorted by \<^verbatim>\<open>datetime\<close>
  (a stable sort, as Python's). \<^verbatim>\<open>outputsize\<close> only travels in the request's parameters.
\<close>

definition get_price_data :: "string \<Rightarrow> string \<Rightarrow> nat \<Rightarrow> world \<Rightarrow> candle list option \<times> world" where
  "get_price_data symbol interval outputsize w =
     (case requests_get ''/time_series'' symbol (Some interval) w of
        (ConnectionFailed, w1) \<Rightarrow> (None, w1)
      | (Reply code body, w1) \<Rightarrow>
          (case checked_json code body of
             None \<Rightarrow> (None, w1)
           | Some data \<Rightarrow>
               (case values_field data of
                  Some items \<Rightarrow> (map_option (sort_key datetime) (parse_values items), w1)
                | None \<Rightarrow> (None, w1))))"

section \<open>Group A: \<^verbatim>\<open>MarketDataAggregator.get_xauusd_data\<close>\<close>

text \<open>The constants of \<^verbatim>\<open>config.py\<close> that Group A reads.\<close>

definition SYMBOL :: string where
  "SYMBOL = ''XAU/USD''"

definition TIMEFRAMES :: "string list" where
  "TIMEFRAMES = [''15min'', ''1h'', ''4h'']"

definition CACHE_TTL_PRICE_DATA :: real where
  "CACHE_TTL_PRICE_DATA = 300"

definition CACHE_TTL_QUOTE :: real where
  "CACHE_TTL_QUOTE = 30"

text \<open>
  The one cache holds quotes and candle lists. \<open>truthy\<close> is Python's truth value of a
  cached value: a list is true when it is not empty, a quote dict (never empty here) is true.
\<close>

datatype payload = Quote json_doc | PriceData "candle list"

fun truthy :: "payload \<Rightarrow> bool" where
  "truthy (Quote q) = True"
| "truthy (PriceData cs) = (cs \<noteq> [])"

text \<open>The two fetchers as fetch functions of the cache: neither raises.\<close>

definition fetch_quote :: "string \<Rightarrow> payload fetch_func" where
  "fetch_quote symbol w =
     (case get_quote symbol w of (r, w') \<Rightarrow> (Returns (map_option Quote r), w'))"

definition fetch_price_data :: "string \<Rightarrow> string \<Rightarrow> nat \<Rightarrow> payload fetch_func" where
  "fetch_price_data symbol interval outputsize w =
     (case get_price_data symbol interval outputsize w of
        (r, w') \<Rightarrow> (Returns (map_option PriceData r), w'))"

text \<open>
  The loop \<^verbatim>\<open>for timeframe in config.TIMEFRAMES\<close>, with the dict \<^verbatim>\<open>price_data\<close> built so
  far. The delay \<^verbatim>\<open>time.sleep(2)\<close> is taken when \<^verbatim>\<open>cache_key not in self.cache\<close>.
\<close>

fun price_loop ::
  "string list \<Rightarrow> payload aggregator \<Rightarrow> world \<Rightarrow> (string \<rightharpoonup> payload) \<Rightarrow>
   (string \<rightharpoonup> payload) \<times> payload aggregator \<times> world" where
  "price_loop [] a w price_data = (price_data, a, w)"
| "price_loop (timeframe # rest) a w price_data =
     (let cache_key = ''price_'' @ SYMBOL @ ''_'' @ timeframe;
          w1 = (if cache a cache_key = None then sleep 2 w else w);
          r = get_cached_data a cache_key CACHE_TTL_PRICE_DATA
                (fetch_price_data SYMBOL timeframe 200) w1;
          price_data' = (case returned r of
                           None \<Rightarrow> price_data
                         | Some d \<Rightarrow> if truthy d then price_data(timeframe \<mapsto> d) else price_data)
      in price_loop rest (agg_after r) (world_after r) price_data')"

record xauusd_data =
  quote :: "payload option"
  price_data :: "string \<rightharpoonup> payload"

definition get_xauusd_data ::
  "payload aggregator \<Rightarrow> world \<Rightarrow> xauusd_data \<times> payload aggregator \<times> world" where
  "get_xauusd_data a w =
     (let q = get_cached_data a (''quote_'' @ SYMBOL) CACHE_TTL_QUOTE (fetch_quote SYMBOL) w in
      case price_loop TIMEFRAMES (agg_after q) (world_after q) Map.empty of
        (pd, a', w') \<Rightarrow> (\<lparr>quote = returned q, price_data = pd\<rparr>, a', w'))"

section \<open>Group B: the key of the batched quote request\<close>






section \<open>The technical analyzer\<close>

text \<open>The Python slice \<^verbatim>\<open>xs[i:]\<close> for any integer \<open>i\<close>: a negative index counts from the end.\<close>

definition slice_from :: "int \<Rightarrow> 'a list \<Rightarrow> 'a list" where
  "slice_from i xs =
     (if i < 0 then drop (nat (int (length xs) + i)) xs else drop (nat i) xs)"

text \<open>
  The loop \<^verbatim>\<open>for i in range(1, len(closes))\<close> of \<^verbatim>\<open>calculate_rsi\<close>: the list of
  \<^verbatim>\<open>closes[i] - closes[i-1]\<close>.
\<close>

fun changes :: "real list \<Rightarrow> real list" where
  "changes (a # b # rest) = (b - a) # changes (b # rest)"
| "changes [a] = []"
| "changes [] = []"

text \<open>
  \<^verbatim>\<open>calculate_rsi(data, period)\<close>. The two divisions by \<^verbatim>\<open>period\<close> raise
  \<^verbatim>\<open>ZeroDivisionError\<close> when the period is 0, and so do the divisions by \<^verbatim>\<open>avg_loss\<close>
  (tested to be non-zero just before) and by \<^verbatim>\<open>1 + rs\<close> when the divisor is 0.
\<close>

definition calculate_rsi :: "candle list \<Rightarrow> int \<Rightarrow> py_error + real option" where
  "calculate_rsi data period =
     (if int (length data) < period + 1 then Inr None
      else
        let closes = map close data;
            gains = map (\<lambda>change. max change 0) (changes closes);
            losses = map (\<lambda>change. max (- change) 0) (changes closes)
        in
          if int (length gains) < period then Inr None
          else if period = 0 then Inl ZeroDivisionError
          else
            let avg_gain = sum_list (slice_from (- period) gains) / real_of_int period;
                avg_loss = sum_list (slice_from (- period) losses) / real_of_int period
            in
              if avg_loss = 0 then Inr (Some 100)
              else
                let rs = avg_gain / avg_loss in
                if 1 + rs = 0 then Inl ZeroDivisionError
                else Inr (Some (100 - 100 / (1 + rs))))"

text \<open>
  The loop of \<^verbatim>\<open>_cluster_levels\<close> over \<^verbatim>\<open>levels[1:]\<close>, with the list \<^verbatim>\<open>clustered\<close> built so
  far (never empty). The test \<^verbatim>\<open>abs(level - clustered[-1]) / clustered[-1] > threshold\<close>
  is \<open>apart\<close>: the level is further from the cluster's member than the tolerance allows.
  Its division raises when \<^verbatim>\<open>clustered[-1]\<close> is 0.
\<close>

definition apart :: "real \<Rightarrow> real \<Rightarrow> real \<Rightarrow> bool" where
  "apart threshold member level = (\<bar>level - member\<bar> / member > threshold)"

fun cluster_loop :: "real \<Rightarrow> real list \<Rightarrow> real list \<Rightarrow> py_error + real list" where
  "cluster_loop threshold clustered [] = Inr clustered"
| "cluster_loop threshold clustered (level # rest) =
     (if last clustered = 0 then Inl ZeroDivisionError
      else if apart threshold (last clustered) level
           then cluster_loop threshold (clustered @ [level]) rest
           else cluster_loop threshold clustered rest)"

text \<open>
  \<^verbatim>\<open>_cluster_levels(levels, threshold)\<close>: empty for no levels; otherwise the levels are
  sorted and the loop starts from \<^verbatim>\<open>[levels[0]]\<close>.
\<close>

definition cluster_levels :: "real \<Rightarrow> real list \<Rightarrow> py_error + real list" where
  "cluster_levels threshold levels =
     (case sort levels of
        [] \<Rightarrow> Inr []
      | first # rest \<Rightarrow> cluster_loop threshold [first] rest)"

text \<open>The default \<^verbatim>\<open>threshold=0.001\<close> of \<^verbatim>\<open>_cluster_levels\<close>.\<close>

definition default_threshold :: real where
  "default_threshold = 1 / 1000"








record levels =
  resistance :: "real list"
  support :: "real list"


section \<open>The market analysis engine\<close>

subsection \<open>The volatility-index block of \<^verbatim>\<open>analyze_correlations\<close>\<close>







subsection \<open>\<^verbatim>\<open>determine_primary_driver\<close>\<close>

text \<open>
  An event of the news list with its \<^verbatim>\<open>time\<close> (seconds on the clock that
  \<^verbatim>\<open>datetime.now\<close> reads); the technical result with its \<^verbatim>\<open>rsi_status\<close>, which
  \<^verbatim>\<open>technical_data.get\<close> may not find; the correlation analysis as a dict of dicts of
  numbers. The news list itself may be \<^verbatim>\<open>None\<close>.
\<close>

record news_event =
  title :: string
  time :: real

record technical_data =
  rsi_status :: "string option"

type_synonym correlation_analysis = "string \<rightharpoonup> (string \<rightharpoonup> real)"

definition get_or_zero :: "(string \<rightharpoonup> real) \<Rightarrow> string \<Rightarrow> real" where
  "get_or_zero d key = (case d key of None \<Rightarrow> 0 | Some v \<Rightarrow> v)"

text \<open>
  \<^verbatim>\<open>(event_time - datetime.now(pytz.UTC)).total_seconds() / 60\<close> for the first event of a
  list that is neither \<^verbatim>\<open>None\<close> nor empty.
\<close>

definition time_until :: "real \<Rightarrow> news_event list option \<Rightarrow> real option" where
  "time_until now news_events =
     (case news_events of
        None \<Rightarrow> None
      | Some [] \<Rightarrow> None
      | Some (next_event # _) \<Rightarrow> Some ((time next_event - now) / 60))"

text \<open>The function, one early \<^verbatim>\<open>return\<close> after the other.\<close>

definition determine_primary_driver ::
  "real \<Rightarrow> technical_data \<Rightarrow> news_event list option \<Rightarrow> correlation_analysis \<Rightarrow> string" where
  "determine_primary_driver now technical news_events correlation =
     (case (case time_until now news_events of
              None \<Rightarrow> None
            | Some minutes \<Rightarrow> if minutes < 60 then Some ''Fundamental'' else None) of
        Some driver \<Rightarrow> driver
      | None \<Rightarrow>
          if rsi_status technical = Some ''Overbought'' \<or> rsi_status technical = Some ''Oversold''
          then ''Technical''
          else
            (case (case correlation ''yield'' of
                     None \<Rightarrow> None
                   | Some y \<Rightarrow>
                       if \<bar>get_or_zero y ''change_bps''\<bar> > 5 then Some ''Fundamental'' else None) of
               Some driver \<Rightarrow> driver
             | None \<Rightarrow>
                 (case (case correlation ''dxy'' of
                          None \<Rightarrow> None
                        | Some d \<Rightarrow>
                            if \<bar>get_or_zero d ''percent_change''\<bar> > 0.5 then Some ''Sentiment''
                            else None) of
                    Some driver \<Rightarrow> driver
                  | None \<Rightarrow> ''Technical'')))"

text \<open>
  The rule list as the specification words it: each rule a condition and a label, the first
  rule whose condition holds decides, and \<open>Technical\<close> is the default.
\<close>

fun first_matching_rule :: "(bool \<times> string) list \<Rightarrow> string \<Rightarrow> string" where
  "first_matching_rule [] fallback = fallback"
| "first_matching_rule ((holds, label) # rules) fallback =
     (if holds then label else first_matching_rule rules fallback)"

definition next_event_within_60_minutes :: "real \<Rightarrow> news_event list option \<Rightarrow> bool" where
  "next_event_within_60_minutes now news_events =
     (case news_events of
        Some (e # _) \<Rightarrow> (time e - now) / 60 < 60
      | _ \<Rightarrow> False)"

definition rsi_extreme :: "technical_data \<Rightarrow> bool" where
  "rsi_extreme technical =
     (rsi_status technical = Some ''Overbought'' \<or> rsi_status technical = Some ''Oversold'')"

definition yield_move_exceeds_5bps :: "correlation_analysis \<Rightarrow> bool" where
  "yield_move_exceeds_5bps correlation =
     (case correlation ''yield'' of
        None \<Rightarrow> False
      | Some y \<Rightarrow> \<bar>get_or_zero y ''change_bps''\<bar> > 5)"

definition dollar_move_exceeds_half_percent :: "correlation_analysis \<Rightarrow> bool" where
  "dollar_move_exceeds_half_percent correlation =
     (case correlation ''dxy'' of
        None \<Rightarrow> False
      | Some d \<Rightarrow> \<bar>get_or_zero d ''percent_change''\<bar> > 0.5)"

definition primary_driver_spec ::
  "real \<Rightarrow> technical_data \<Rightarrow> news_event list option \<Rightarrow> correlation_analysis \<Rightarrow> string" where
  "primary_driver_spec now technical news_events correlation =
     first_matching_rule
       [(next_event_within_60_minutes now news_events, ''Fundamental''),
        (rsi_extreme technical, ''Technical''),
        (yield_move_exceeds_5bps correlation, ''Fundamental''),
        (dollar_move_exceeds_half_percent correlation, ''Sentiment'')]
       ''Technical''"

section \<open>Concrete inputs\<close>

text \<open>
  The inputs at which the theorems below are evaluated. A candle whose four prices are all
  \<open>c\<close>, a reply document with one candle, and fetch functions with a fixed outcome.
\<close>

definition flat_candle :: "real \<Rightarrow> real \<Rightarrow> candle" where
  "flat_candle t c = \<lparr>datetime = t, open_price = c, high = c, low = c, close = c, volume = 0\<rparr>"

definition good_doc :: json_doc where
  "good_doc =
     \<lparr>status_error = False, values_field = Some [Parsed (flat_candle 0 2)], content = []\<rparr>"

definition fetch_const :: "'v option \<Rightarrow> 'v fetch_func" where
  "fetch_const r w = (Returns r, w)"

definition fetch_raising :: "'v fetch_func" where
  "fetch_raising w = (Raises, w)"

definition world_at :: "real \<Rightarrow> world" where
  "world_at t = \<lparr>clock = t, replies = [], trace = []\<rparr>"

definition empty_agg :: "'v aggregator" where
  "empty_agg = \<lparr>cache = Map.empty, cache_timestamps = Map.empty\<rparr>"

text \<open>
  A cache that holds one candle list for the 15-minute series, stored at time 0, and a world
  15 minutes later in which the provider answers with an empty \<^verbatim>\<open>values\<close> array.
\<close>

definition stale_agg :: "payload aggregator" where
  "stale_agg =
     \<lparr>cache = [''price_XAU/USD_15min'' \<mapsto> PriceData [flat_candle 0 2]],
      cache_timestamps = [''price_XAU/USD_15min'' \<mapsto> 0]\<rparr>"

definition empty_values_world :: world where
  "empty_values_world =
     \<lparr>clock = 900,
      replies = [Reply 200 (Some \<lparr>status_error = False, values_field = Some [], content = []\<rparr>)],
      trace = []\<rparr>"

text \<open>A provider that answers 429 to the first request and would answer the second.\<close>

definition rate_limited_world :: world where
  "rate_limited_world =
     \<lparr>clock = 0, replies = [Reply 429 None, Reply 200 (Some good_doc)], trace = []\<rparr>"

text \<open>
  Two update cycles 15 minutes apart (\<^verbatim>\<open>UPDATE_INTERVAL = 900\<close>), the provider answering
  every request: the first on an empty cache, the second on the cache the first one left.
\<close>

definition first_cycle_world :: world where
  "first_cycle_world =
     \<lparr>clock = 0,
      replies = [Reply 200 (Some good_doc), Reply 200 (Some good_doc),
                 Reply 200 (Some good_doc), Reply 200 (Some good_doc)],
      trace = []\<rparr>"

definition warm_agg :: "payload aggregator" where
  "warm_agg = fst (snd (get_xauusd_data empty_agg first_cycle_world))"

definition second_cycle_world :: world where
  "second_cycle_world =
     \<lparr>clock = 906,
      replies = [Reply 200 (Some good_doc), Reply 200 (Some good_doc),
                 Reply 200 (Some good_doc), Reply 200 (Some good_doc)],
      trace = []\<rparr>"



text \<open>Candle series by their closes, and a series with one peak and one trough.\<close>

definition series :: "real list \<Rightarrow> candle list" where
  "series closes = map (\<lambda>c. flat_candle 0 c) closes"





section \<open>Theorems: the TTL cache\<close>

lemma get_cached_data_hit:
  "cache a key = Some v \<Longrightarrow> cache_timestamps a key = Some ts \<Longrightarrow> clock w - ts < ttl \<Longrightarrow>
   get_cached_data a key ttl fetch_func w =
     \<lparr>returned = Some v, agg_after = a, world_after = w, fetch_calls = 0\<rparr>"
  by (simp add: get_cached_data_def fresh_def)

lemma get_cached_data_store:
  "\<not> fresh a key ttl (clock w) \<Longrightarrow> fetch_func w = (Returns (Some v), w') \<Longrightarrow>
   get_cached_data a key ttl fetch_func w =
     \<lparr>returned = Some v,
      agg_after = a\<lparr>cache := (cache a)(key \<mapsto> v),
                    cache_timestamps := (cache_timestamps a)(key \<mapsto> clock w)\<rparr>,
      world_after = w', fetch_calls = 1\<rparr>"
  by (simp add: get_cached_data_def)

text \<open>A call for another key leaves the entry of \<open>key\<close> as it was.\<close>

lemma get_cached_data_other_key:
  "key' \<noteq> key \<Longrightarrow>
   cache (agg_after (get_cached_data a key' ttl fetch_func w)) key = cache a key \<and>
   cache_timestamps (agg_after (get_cached_data a key' ttl fetch_func w)) key =
     cache_timestamps a key"
  by (auto simp add: get_cached_data_def Let_def
      split: prod.splits fetch_outcome.splits option.splits)

text \<open>
  Claim C1. A call that finds no fresh entry and whose fetch function returns a value \<open>v\<close>
  stores \<open>v\<close> with \<^verbatim>\<open>fetched_at\<close> the time of the call and returns it. Any later call for
  the same key, on an aggregator that still holds that entry (\<open>a2\<close>: the state the first call
  left, or one reached from it by calls for other keys), made while
  \<^verbatim>\<open>now - fetched_at < ttl\<close>, returns the same \<open>v\<close> and does not invoke its fetch function:
  it leaves aggregator and world untouched. The two calls together invoke a fetch function
  once, and return the same value.
\<close>

theorem get_cached_data_within_ttl:
  assumes "\<not> fresh a key ttl1 (clock w1)"
    and "fetch1 w1 = (Returns (Some v), w1')"
    and "first = get_cached_data a key ttl1 fetch1 w1"
    and "cache a2 key = cache (agg_after first) key"
    and "cache_timestamps a2 key = cache_timestamps (agg_after first) key"
    and "clock w2 - clock w1 < ttl2"
    and "second = get_cached_data a2 key ttl2 fetch2 w2"
  shows "cache_timestamps (agg_after first) key = Some (clock w1) \<and>
         returned first = Some v \<and> fetch_calls first = 1 \<and>
         returned second = Some v \<and> fetch_calls second = 0 \<and>
         world_after second = w2 \<and> agg_after second = a2 \<and>
         fetch_calls first + fetch_calls second \<le> 1"
proof -
  have f: "first =
      \<lparr>returned = Some v,
       agg_after = a\<lparr>cache := (cache a)(key \<mapsto> v),
                     cache_timestamps := (cache_timestamps a)(key \<mapsto> clock w1)\<rparr>,
       world_after = w1', fetch_calls = 1\<rparr>"
    using assms(1,2,3) by (simp add: get_cached_data_store)
  have c: "cache a2 key = Some v" and t: "cache_timestamps a2 key = Some (clock w1)"
    using assms(4,5) f by simp_all
  have s: "second = \<lparr>returned = Some v, agg_after = a2, world_after = w2, fetch_calls = 0\<rparr>"
    using assms(6,7) c t by (simp add: get_cached_data_hit)
  show ?thesis using f s by simp
qed

text \<open>
  The theorem at work: a value 7 stored at time 100 on an empty cache, a call for another
  key in between, and a second call at time 120 with a TTL of 30 whose fetch function would
  return 9.
\<close>

theorem get_cached_data_within_ttl_witness:
  "returned (get_cached_data empty_agg ''k'' 30 (fetch_const (Some (7::nat))) (world_at 100))
     = Some 7 \<and>
   returned (get_cached_data
      (agg_after (get_cached_data
         (agg_after (get_cached_data empty_agg ''k'' 30 (fetch_const (Some (7::nat))) (world_at 100)))
         ''other'' 30 (fetch_const (Some 1)) (world_at 110)))
      ''k'' 30 (fetch_const (Some 9)) (world_at 120)) = Some 7 \<and>
   fetch_calls (get_cached_data
      (agg_after (get_cached_data
         (agg_after (get_cached_data empty_agg ''k'' 30 (fetch_const (Some (7::nat))) (world_at 100)))
         ''other'' 30 (fetch_const (Some 1)) (world_at 110)))
      ''k'' 30 (fetch_const (Some 9)) (world_at 120)) = 0"
proof -
  let ?first = "get_cached_data (empty_agg :: nat aggregator) ''k'' 30 (fetch_const (Some 7)) (world_at 100)"
  let ?a2 = "agg_after (get_cached_data (agg_after ?first) ''other'' 30 (fetch_const (Some 1)) (world_at 110))"
  have h1: "\<not> fresh (empty_agg :: nat aggregator) ''k'' 30 (clock (world_at 100))"
    by (simp add: fresh_def empty_agg_def)
  have h2: "fetch_const (Some (7::nat)) (world_at 100) = (Returns (Some 7), world_at 100)"
    by (simp add: fetch_const_def)
  have h3: "cache ?a2 ''k'' = cache (agg_after ?first) ''k''"
    and h4: "cache_timestamps ?a2 ''k'' = cache_timestamps (agg_after ?first) ''k''"
    using get_cached_data_other_key [of "''other''" "''k''" "agg_after ?first"] by simp_all
  have h5: "clock (world_at 120) - clock (world_at 100) < 30"
    by (simp add: world_at_def)
  show ?thesis
    using get_cached_data_within_ttl [OF h1 h2 refl h3 h4 h5 refl, of "fetch_const (Some 9)"]
    by blast
qed

text \<open>
  Claim C2, as the specification states it: when the entry has expired and the fetch function
  raises or returns an empty or null result, the call returns the previously stored value.
  It fails for a result that is empty but not \<^verbatim>\<open>None\<close>: the test of the source is
  \<^verbatim>\<open>data is not None\<close>. Here the cache holds one candle for the 15-minute series, stored 900
  seconds ago; the provider answers with an empty \<^verbatim>\<open>values\<close> array, so
  \<^verbatim>\<open>get_price_data\<close> returns the empty list; the call returns that empty list, not the
  stored candle.
\<close>

theorem get_cached_data_empty_result_counterexample:
  "\<not> fresh stale_agg ''price_XAU/USD_15min'' CACHE_TTL_PRICE_DATA (clock empty_values_world) \<and>
   fst (fetch_price_data SYMBOL ''15min'' 200 empty_values_world) = Returns (Some (PriceData [])) \<and>
   \<not> truthy (PriceData []) \<and>
   cache stale_agg ''price_XAU/USD_15min'' = Some (PriceData [flat_candle 0 2]) \<and>
   returned (get_cached_data stale_agg ''price_XAU/USD_15min'' CACHE_TTL_PRICE_DATA
      (fetch_price_data SYMBOL ''15min'' 200) empty_values_world) = Some (PriceData [])"
  by (simp add: fresh_def stale_agg_def empty_values_world_def CACHE_TTL_PRICE_DATA_def
      fetch_price_data_def get_price_data_def requests_get_def checked_json_def
      raise_for_status_def get_cached_data_def SYMBOL_def)

text \<open>
  Claim C2, amended. When the entry of the key is not fresh and the fetch function raises an
  exception or returns \<^verbatim>\<open>None\<close>, the call returns what the cache holds for the key (the
  previous value, however old, or \<^verbatim>\<open>None\<close> when there is none) and leaves the cache as it
  was; the result of the call is a value in every case, never the exception. A result other
  than \<^verbatim>\<open>None\<close>, an empty one included, counts as a success: it is stored and returned.
\<close>

theorem get_cached_data_fetch_failure:
  assumes "\<not> fresh a key ttl (clock w)"
  shows "(fst (fetch_func w) = Raises \<or> fst (fetch_func w) = Returns None \<longrightarrow>
            returned (get_cached_data a key ttl fetch_func w) = cache a key \<and>
            agg_after (get_cached_data a key ttl fetch_func w) = a) \<and>
         (fst (fetch_func w) = Returns (Some v) \<longrightarrow>
            returned (get_cached_data a key ttl fetch_func w) = Some v \<and>
            cache (agg_after (get_cached_data a key ttl fetch_func w)) key = Some v)"
  using assms
  by (auto simp add: get_cached_data_def split: prod.splits fetch_outcome.splits option.splits)

text \<open>
  On the stale cache above: a fetch that raises and one that returns \<^verbatim>\<open>None\<close> both give the
  stored candle; on an empty cache the same two give \<^verbatim>\<open>None\<close>; a fetched empty list is
  returned as it is.
\<close>

theorem get_cached_data_fetch_failure_witness:
  "returned (get_cached_data stale_agg ''price_XAU/USD_15min'' 300 fetch_raising (world_at 900))
     = Some (PriceData [flat_candle 0 2]) \<and>
   returned (get_cached_data stale_agg ''price_XAU/USD_15min'' 300 (fetch_const None) (world_at 900))
     = Some (PriceData [flat_candle 0 2]) \<and>
   returned (get_cached_data (empty_agg :: payload aggregator) ''price_XAU/USD_15min'' 300
      fetch_raising (world_at 900)) = None \<and>
   returned (get_cached_data (empty_agg :: payload aggregator) ''price_XAU/USD_15min'' 300
      (fetch_const None) (world_at 900)) = None \<and>
   returned (get_cached_data stale_agg ''price_XAU/USD_15min'' 300
      (fetch_const (Some (PriceData []))) (world_at 900)) = Some (PriceData [])"
proof -
  have s: "\<not> fresh stale_agg ''price_XAU/USD_15min'' 300 (clock (world_at 900))"
    by (simp add: fresh_def stale_agg_def world_at_def)
  have e: "\<not> fresh (empty_agg :: payload aggregator) ''price_XAU/USD_15min'' 300 (clock (world_at 900))"
    by (simp add: fresh_def empty_agg_def)
  show ?thesis
    using get_cached_data_fetch_failure [OF s, of fetch_raising]
      get_cached_data_fetch_failure [OF s, of "fetch_const None"]
      get_cached_data_fetch_failure [OF e, of fetch_raising]
      get_cached_data_fetch_failure [OF e, of "fetch_const None"]
      get_cached_data_fetch_failure [OF s, of "fetch_const (Some (PriceData []))" "PriceData []"]
    by (simp add: fetch_raising_def fetch_const_def stale_agg_def empty_agg_def)
qed


section \<open>Theorems: the relative strength index\<close>

lemma changes_increasing: "sorted_wrt (<) cs \<Longrightarrow> x \<in> set (changes cs) \<Longrightarrow> 0 < x"
  by (induction cs rule: changes.induct) auto

lemma changes_decreasing: "sorted_wrt (>) cs \<Longrightarrow> x \<in> set (changes cs) \<Longrightarrow> x < 0"
  by (induction cs rule: changes.induct) auto

lemma length_changes: "length (changes cs) = length cs - 1"
  by (induction cs rule: changes.induct) auto

lemma set_slice_from: "x \<in> set (slice_from i xs) \<Longrightarrow> x \<in> set xs"
  by (auto simp add: slice_from_def dest: in_set_dropD split: if_splits)

lemma length_slice_from_last: "0 < p \<Longrightarrow> p \<le> int (length xs) \<Longrightarrow> length (slice_from (- p) xs) = nat p"
  by (simp add: slice_from_def)

lemma sum_list_all_zero: "(\<And>x. x \<in> set xs \<Longrightarrow> x = (0::real)) \<Longrightarrow> sum_list xs = 0"
  by (induction xs) auto

lemma sum_list_all_positive: "xs \<noteq> [] \<Longrightarrow> (\<And>x. x \<in> set xs \<Longrightarrow> (0::real) < x) \<Longrightarrow> 0 < sum_list xs"
  by (induction xs) (auto simp add: add_pos_nonneg sum_list_nonneg less_imp_le)

lemma gains_nonneg: "0 \<le> sum_list (slice_from i (map (\<lambda>change. max change (0::real)) cs))"
  by (rule sum_list_nonneg) (auto dest!: set_slice_from)

lemma losses_nonneg: "0 \<le> sum_list (slice_from i (map (\<lambda>change. max (- change) (0::real)) cs))"
  by (rule sum_list_nonneg) (auto dest!: set_slice_from)

lemma rsi_formula_bounds:
  assumes "0 \<le> g" "0 \<le> l" "l / p \<noteq> 0" 
  shows "0 \<le> 100 - 100 / (1 + (g / p) / (l / p)) \<and> 100 - 100 / (1 + (g / p) / (l / p)) \<le> (100::real)"
proof -
  from assms have p: "p \<noteq> 0" and l: "0 < l" by (auto simp add: less_le)
  then have rs: "(g / p) / (l / p) = g / l" by simp
  have "0 \<le> g / l" using assms(1) l by simp
  then have "1 \<le> 1 + g / l" by simp
  then have "0 < 100 / (1 + g / l) \<and> 100 / (1 + g / l) \<le> 100"
    by (simp add: pos_divide_le_eq)
  then show ?thesis unfolding rs by simp
qed

lemma calculate_rsi_bounds:
  assumes "calculate_rsi data p = Inr (Some r)"
  shows "0 \<le> r \<and> r \<le> 100"
proof -
  define g where "g = sum_list (slice_from (- p) (map (\<lambda>change. max change 0) (changes (map close data))))"
  define l where "l = sum_list (slice_from (- p) (map (\<lambda>change. max (- change) 0) (changes (map close data))))"
  have g: "0 \<le> g" unfolding g_def by (rule gains_nonneg)
  have l: "0 \<le> l" unfolding l_def by (rule losses_nonneg)
  have unfolded: "calculate_rsi data p =
     (if int (length data) < p + 1 then Inr None
      else if int (length (changes (map close data))) < p then Inr None
      else if p = 0 then Inl ZeroDivisionError
      else if l / real_of_int p = 0 then Inr (Some 100)
      else if 1 + (g / real_of_int p) / (l / real_of_int p) = 0 then Inl ZeroDivisionError
      else Inr (Some (100 - 100 / (1 + (g / real_of_int p) / (l / real_of_int p)))))"
    by (simp only: calculate_rsi_def Let_def g_def l_def length_map)
  from assms have "r = 100 \<or>
      (l / real_of_int p \<noteq> 0 \<and> r = 100 - 100 / (1 + (g / real_of_int p) / (l / real_of_int p)))"
    unfolding unfolded by (simp split: if_splits)
  then show ?thesis
  proof
    assume "r = 100"
    then show ?thesis by simp
  next
    assume "l / real_of_int p \<noteq> 0 \<and> r = 100 - 100 / (1 + (g / real_of_int p) / (l / real_of_int p))"
    then show ?thesis using rsi_formula_bounds [OF g l, of "real_of_int p"] by simp
  qed
qed

lemma calculate_rsi_increasing:
  assumes "1 \<le> p" "p + 1 \<le> int (length data)" "sorted_wrt (<) (map close data)"
  shows "calculate_rsi data p = Inr (Some 100)"
proof -
  have "sum_list (slice_from (- p) (map (\<lambda>change. max (- change) 0) (changes (map close data)))) = 0"
  proof (rule sum_list_all_zero)
    fix x assume "x \<in> set (slice_from (- p) (map (\<lambda>change. max (- change) 0) (changes (map close data))))"
    then have "x \<in> set (map (\<lambda>change. max (- change) 0) (changes (map close data)))"
      by (rule set_slice_from)
    then obtain c where c: "c \<in> set (changes (map close data))" and x: "x = max (- c) 0" by auto
    from changes_increasing [OF assms(3) c] x show "x = 0" by simp
  qed
  then show ?thesis using assms(1,2) by (simp add: calculate_rsi_def Let_def length_changes)
qed

lemma calculate_rsi_decreasing:
  assumes "1 \<le> p" "p + 1 \<le> int (length data)" "sorted_wrt (>) (map close data)"
  shows "calculate_rsi data p = Inr (Some 0)"
proof -
  let ?cs = "changes (map close data)"
  let ?gains = "map (\<lambda>change. max change 0) ?cs"
  let ?losses = "map (\<lambda>change. max (- change) 0) ?cs"
  have len: "p \<le> int (length ?losses)" using assms(2) by (simp add: length_changes)
  have g: "sum_list (slice_from (- p) ?gains) = 0"
  proof (rule sum_list_all_zero)
    fix x assume "x \<in> set (slice_from (- p) ?gains)"
    then have "x \<in> set ?gains" by (rule set_slice_from)
    then obtain c where c: "c \<in> set ?cs" and x: "x = max c 0" by auto
    from changes_decreasing [OF assms(3) c] x show "x = 0" by simp
  qed
  have "length (slice_from (- p) ?losses) = nat p"
    using assms(1) len by (intro length_slice_from_last) auto
  then have ne: "slice_from (- p) ?losses \<noteq> []" using assms(1) by auto
  have l: "0 < sum_list (slice_from (- p) ?losses)"
  proof (rule sum_list_all_positive [OF ne])
    fix x assume "x \<in> set (slice_from (- p) ?losses)"
    then have "x \<in> set ?losses" by (rule set_slice_from)
    then obtain c where c: "c \<in> set ?cs" and x: "x = max (- c) 0" by auto
    from changes_decreasing [OF assms(3) c] x show "0 < x" by simp
  qed
  show ?thesis using assms(1,2) g l by (simp add: calculate_rsi_def Let_def length_changes)
qed

text \<open>
  Claim C3, as the specification states it, for every period: a strictly increasing series
  of at least \<open>period + 1\<close> candles has RSI 100. It fails for the period 0: the two candles
  with closes 1 and 2 are such a series, and \<^verbatim>\<open>sum(gains[-0:]) / 0\<close> raises
  \<^verbatim>\<open>ZeroDivisionError\<close>.
\<close>

theorem calculate_rsi_period_zero_counterexample:
  "0 + 1 \<le> int (length (series [1, 2])) \<and>
   sorted_wrt (<) (map close (series [1, 2])) \<and>
   calculate_rsi (series [1, 2]) 0 = Inl ZeroDivisionError"
  by (simp add: series_def flat_candle_def calculate_rsi_def)

text \<open>
  Claim C3, amended to periods of at least 1. \<^verbatim>\<open>calculate_rsi\<close> returns \<^verbatim>\<open>None\<close> when the
  list has fewer than \<open>period + 1\<close> candles (for every period). For a period \<open>p \<ge> 1\<close> and a
  list of at least \<open>p + 1\<close> candles it returns exactly 100 when the closes are strictly
  increasing and exactly 0 when they are strictly decreasing. Every result that is not
  \<^verbatim>\<open>None\<close> lies between 0 and 100.
\<close>

theorem calculate_rsi_spec:
  "(int (length data) < p + 1 \<longrightarrow> calculate_rsi data p = Inr None) \<and>
   (1 \<le> p \<and> p + 1 \<le> int (length data) \<and> sorted_wrt (<) (map close data) \<longrightarrow>
      calculate_rsi data p = Inr (Some 100)) \<and>
   (1 \<le> p \<and> p + 1 \<le> int (length data) \<and> sorted_wrt (>) (map close data) \<longrightarrow>
      calculate_rsi data p = Inr (Some 0)) \<and>
   (\<forall>r. calculate_rsi data p = Inr (Some r) \<longrightarrow> 0 \<le> r \<and> r \<le> 100)"
proof -
  have "int (length data) < p + 1 \<Longrightarrow> calculate_rsi data p = Inr None"
    by (simp add: calculate_rsi_def)
  then show ?thesis
    using calculate_rsi_increasing [of p data] calculate_rsi_decreasing [of p data]
      calculate_rsi_bounds [of data p]
    by blast
qed

text \<open>
  Thirteen candles with period 14 have no RSI; rising closes give 100 and falling closes 0
  with period 3; the closes 1, 3, 2 with period 2 give 200/3, inside the interval.
\<close>

theorem calculate_rsi_spec_witness:
  "calculate_rsi (series [1, 2, 3, 4, 5, 6, 7, 8, 9, 10, 11, 12, 13]) 14 = Inr None \<and>
   calculate_rsi (series [1, 2, 3, 4]) 3 = Inr (Some 100) \<and>
   calculate_rsi (series [4, 3, 2, 1]) 3 = Inr (Some 0) \<and>
   calculate_rsi (series [1, 3, 2]) 2 = Inr (Some (200 / 3)) \<and>
   (0::real) \<le> 200 / 3 \<and> (200::real) / 3 \<le> 100"
proof -
  have short: "int (length (series [1, 2, 3, 4, 5, 6, 7, 8, 9, 10, 11, 12, 13])) < 14 + 1"
    by (simp add: series_def)
  have up: "1 \<le> (3::int) \<and> 3 + 1 \<le> int (length (series [1, 2, 3, 4])) \<and>
      sorted_wrt (<) (map close (series [1, 2, 3, 4]))"
    by (simp add: series_def flat_candle_def)
  have down: "1 \<le> (3::int) \<and> 3 + 1 \<le> int (length (series [4, 3, 2, 1])) \<and>
      sorted_wrt (>) (map close (series [4, 3, 2, 1]))"
    by (simp add: series_def flat_candle_def)
  have mixed: "calculate_rsi (series [1, 3, 2]) 2 = Inr (Some (200 / 3))"
    by (simp add: calculate_rsi_def series_def flat_candle_def slice_from_def)
  have none: "calculate_rsi (series [1, 2, 3, 4, 5, 6, 7, 8, 9, 10, 11, 12, 13]) 14 = Inr None"
    using calculate_rsi_spec [of "series [1, 2, 3, 4, 5, 6, 7, 8, 9, 10, 11, 12, 13]" 14] short
    by (elim conjE) (erule mp)
  have hundred: "calculate_rsi (series [1, 2, 3, 4]) 3 = Inr (Some 100)"
    using calculate_rsi_spec [of "series [1, 2, 3, 4]" 3] up
    by (elim conjE) (erule mp, intro conjI)
  have zero: "calculate_rsi (series [4, 3, 2, 1]) 3 = Inr (Some 0)"
    using calculate_rsi_spec [of "series [4, 3, 2, 1]" 3] down
    by (elim conjE) (erule mp, intro conjI)
  have "\<forall>r. calculate_rsi (series [1, 3, 2]) 2 = Inr (Some r) \<longrightarrow> 0 \<le> r \<and> r \<le> 100"
    using calculate_rsi_spec [of "series [1, 3, 2]" 2] by (elim conjE)
  then have "(0::real) \<le> 200 / 3 \<and> (200::real) / 3 \<le> 100"
    using mixed by (elim allE [of _ "200 / 3"] impE) assumption
  then show ?thesis using none hundred zero mixed by (intro conjI) (elim conjE, assumption)+
qed

section \<open>Theorems: clustering of levels\<close>

lemma cluster_loop_prefix:
  "cluster_loop thr acc rest = Inr out \<Longrightarrow> \<exists>ks. out = acc @ ks \<and> set ks \<subseteq> set rest"
proof (induction rest arbitrary: acc)
  case Nil
  then show ?case by simp
next
  case (Cons level rest)
  show ?case
  proof (cases "apart thr (last acc) level")
    case True
    with Cons.prems have "cluster_loop thr (acc @ [level]) rest = Inr out"
      by (simp split: if_splits)
    from Cons.IH [OF this] obtain ks where "out = (acc @ [level]) @ ks" "set ks \<subseteq> set rest" by blast
    then have "out = acc @ (level # ks) \<and> set (level # ks) \<subseteq> set (level # rest)" by auto
    then show ?thesis by blast
  next
    case False
    with Cons.prems have "cluster_loop thr acc rest = Inr out"
      by (simp split: if_splits)
    from Cons.IH [OF this] show ?thesis by auto
  qed
qed

lemma cluster_loop_sorted:
  "sorted (acc @ rest) \<Longrightarrow> cluster_loop thr acc rest = Inr out \<Longrightarrow> sorted out"
proof (induction rest arbitrary: acc)
  case Nil
  then show ?case by simp
next
  case (Cons level rest)
  show ?case
  proof (cases "apart thr (last acc) level")
    case True
    with Cons.prems(2) have "cluster_loop thr (acc @ [level]) rest = Inr out"
      by (simp split: if_splits)
    moreover have "sorted ((acc @ [level]) @ rest)" using Cons.prems(1) by simp
    ultimately show ?thesis by (rule Cons.IH [rotated])
  next
    case False
    with Cons.prems(2) have "cluster_loop thr acc rest = Inr out"
      by (simp split: if_splits)
    moreover have "sorted (acc @ rest)" using Cons.prems(1) by (auto simp add: sorted_append)
    ultimately show ?thesis by (rule Cons.IH [rotated])
  qed
qed

lemma cluster_loop_successively:
  "acc \<noteq> [] \<Longrightarrow> successively (apart thr) acc \<Longrightarrow> cluster_loop thr acc rest = Inr out \<Longrightarrow>
   successively (apart thr) out"
proof (induction rest arbitrary: acc)
  case Nil
  then show ?case by simp
next
  case (Cons level rest)
  show ?case
  proof (cases "apart thr (last acc) level")
    case True
    with Cons.prems(3) have "cluster_loop thr (acc @ [level]) rest = Inr out"
      by (simp split: if_splits)
    moreover have "successively (apart thr) (acc @ [level])"
      using Cons.prems(1,2) True by (simp add: successively_append_iff)
    ultimately show ?thesis using Cons.IH [of "acc @ [level]"] by simp
  next
    case False
    with Cons.prems(3) have "cluster_loop thr acc rest = Inr out"
      by (simp split: if_splits)
    then show ?thesis using Cons.IH [of acc] Cons.prems(1,2) by simp
  qed
qed


lemma cluster_loop_total:
  "acc \<noteq> [] \<Longrightarrow> 0 \<notin> set acc \<Longrightarrow> 0 \<notin> set rest \<Longrightarrow> \<exists>out. cluster_loop thr acc rest = Inr out"
proof (induction rest arbitrary: acc)
  case Nil
  then show ?case by simp
next
  case (Cons level rest)
  from Cons.prems have nz: "last acc \<noteq> 0" by (metis last_in_set)
  show ?case
  proof (cases "apart thr (last acc) level")
    case True
    then show ?thesis using Cons.IH [of "acc @ [level]"] Cons.prems nz by auto
  next
    case False
    then show ?thesis using Cons.IH [of acc] Cons.prems nz by auto
  qed
qed

lemma cluster_loop_fixpoint:
  "acc \<noteq> [] \<Longrightarrow> successively (apart thr) (last acc # cs) \<Longrightarrow> last acc \<noteq> 0 \<Longrightarrow> 0 \<notin> set cs \<Longrightarrow>
   cluster_loop thr acc cs = Inr (acc @ cs)"
proof (induction cs arbitrary: acc)
  case Nil
  then show ?case by simp
next
  case (Cons c cs)
  from Cons.prems have "apart thr (last acc) c" by simp
  moreover have "cluster_loop thr (acc @ [c]) cs = Inr ((acc @ [c]) @ cs)"
    using Cons.prems by (intro Cons.IH) auto
  ultimately show ?case using Cons.prems by simp
qed

lemma sort_Cons_Min: "sort xs = a # rest \<Longrightarrow> a = Min (set xs)"
proof -
  assume s: "sort xs = a # rest"
  have "sorted (sort xs)" "set (sort xs) = set xs" by simp_all
  with s have "sorted (a # rest)" "set xs = set (a # rest)" by simp_all
  then show ?thesis by (auto intro!: Min_eqI [symmetric])
qed

lemma cluster_levels_shape:
  assumes "cluster_levels thr levels = Inr out"
  shows "sorted out \<and> set out \<subseteq> set levels \<and> successively (apart thr) out"
proof (cases "sort levels")
  case Nil
  then show ?thesis using assms by (simp add: cluster_levels_def)
next
  case (Cons first rest)
  with assms have run: "cluster_loop thr [first] rest = Inr out" by (simp add: cluster_levels_def)
  have "sorted (sort levels)" by simp
  then have srt: "sorted ([first] @ rest)" using Cons by simp
  have "set (sort levels) = set levels" by simp
  then have st: "set levels = set (first # rest)" using Cons by simp
  from cluster_loop_prefix [OF run] st have "set out \<subseteq> set levels" by auto
  moreover have "sorted out" using cluster_loop_sorted [OF srt run] .
  moreover have "successively (apart thr) out"
    using cluster_loop_successively [OF _ _ run] by simp
  ultimately show ?thesis by simp
qed












text \<open>
  Claim C10. For a list of levels that is not empty and whose levels are all strictly
  positive, \<^verbatim>\<open>_cluster_levels\<close> returns a list, clustering that list again returns it
  unchanged, the list is sorted ascending, and its first element is the least level of the
  input. This holds for every threshold.
\<close>

theorem cluster_levels_idempotent:
  assumes "levels \<noteq> []" and "\<forall>x\<in>set levels. 0 < x"
  shows "\<exists>out. cluster_levels threshold levels = Inr out \<and>
           cluster_levels threshold out = Inr out \<and>
           sorted out \<and> out \<noteq> [] \<and> hd out = Min (set levels)"
proof -
  have "sort levels \<noteq> []" using assms(1) by (metis length_sort length_0_conv)
  then obtain first rest where s: "sort levels = first # rest" by (cases "sort levels") auto
  have "set (sort levels) = set levels" by simp
  then have st: "set levels = set (first # rest)" using s by simp
  with assms(2) have nz: "0 \<notin> set [first]" "0 \<notin> set rest" by auto
  from cluster_loop_total [OF _ nz] obtain out where
    run: "cluster_loop threshold [first] rest = Inr out"
    by auto
  then have cl: "cluster_levels threshold levels = Inr out" using s by (simp add: cluster_levels_def)
  from cluster_loop_prefix [OF run] obtain ks where
    ks: "out = first # ks" "set ks \<subseteq> set rest" by auto
  from cluster_levels_shape [OF cl] have srt: "sorted out"
    and suc: "successively (apart threshold) out"
    by simp_all
  have "sort out = out" using srt by (simp add: sorted_sort_id)
  moreover have "cluster_loop threshold [first] ks = Inr ([first] @ ks)"
    using suc ks nz by (intro cluster_loop_fixpoint) auto
  ultimately have "cluster_levels threshold out = Inr out" using ks by (simp add: cluster_levels_def)
  moreover have "hd out = Min (set levels)" using sort_Cons_Min [OF s] ks by simp
  ultimately show ?thesis using cl srt ks by auto
qed

text \<open>
  On the levels 101, 100.05, 100 and 105 (not sorted): the clusters are 100 and 105, a second
  clustering leaves them, and 100 is the least level.
\<close>

theorem cluster_levels_idempotent_witness:
  "cluster_levels default_threshold [101, 100.05, 100, 105] = Inr [100, 101, 105] \<and>
   cluster_levels default_threshold [100, 101, 105] = Inr [100, 101, 105] \<and>
   hd [100, 101, 105 :: real] = Min (set [101, 100.05, 100, 105])"
proof -
  have ne: "[101, 100.05, 100, 105 :: real] \<noteq> []" by simp
  have pos: "\<forall>x\<in>set [101, 100.05, 100, 105 :: real]. 0 < x" by simp
  have ev: "cluster_levels default_threshold [101, 100.05, 100, 105] = Inr [100, 101, 105]"
    by (simp add: cluster_levels_def default_threshold_def apart_def)
  from cluster_levels_idempotent [OF ne pos, of default_threshold] ev
  show ?thesis by auto
qed

section \<open>Theorems: the fetchers and Group A\<close>

text \<open>
  Claim C6 says that every fetch of the orchestrator, the price-history requests included,
  pauses and retries once when the provider signals that the rate limit is reached. The
  source does so in \<^verbatim>\<open>get_quote\<close> only. At a provider that answers 429 first and would
  answer the retry, \<^verbatim>\<open>get_price_data\<close> returns \<^verbatim>\<open>None\<close> after its single request, with no
  pause and no second request (the second reply is still waiting), whereas \<^verbatim>\<open>get_quote\<close>
  sleeps 61 seconds, sends the request again and returns the document.
\<close>

theorem get_price_data_no_retry_on_429:
  "get_price_data SYMBOL ''15min'' 200 rate_limited_world =
     (None, \<lparr>clock = 0, replies = [Reply 200 (Some good_doc)],
             trace = [HttpGet ''/time_series'' SYMBOL (Some ''15min'')]\<rparr>) \<and>
   get_quote SYMBOL rate_limited_world =
     (Some good_doc, \<lparr>clock = 61, replies = [],
             trace = [HttpGet ''/quote'' SYMBOL None, Sleep 61, HttpGet ''/quote'' SYMBOL None]\<rparr>)"
  by (simp add: get_price_data_def get_quote_def rate_limited_world_def requests_get_def
      checked_json_def raise_for_status_def sleep_def good_doc_def)

text \<open>
  Claim C7 says that every price-history request that reaches the provider is preceded by
  the delay. The source waits when the key is not in the cache, and no key ever leaves the
  cache. In the first cycle, on an empty cache, each of the three requests follows a sleep of
  2 seconds. In the second cycle, 15 minutes later, the entry of the 15-minute series is in
  the cache and stale (as are the other two): the three requests are sent again, one after
  the other, and the trace holds no sleep.
\<close>

theorem get_xauusd_data_stale_no_delay:
  "trace (snd (snd (get_xauusd_data empty_agg first_cycle_world))) =
     [HttpGet ''/quote'' ''XAU/USD'' None,
      Sleep 2, HttpGet ''/time_series'' ''XAU/USD'' (Some ''15min''),
      Sleep 2, HttpGet ''/time_series'' ''XAU/USD'' (Some ''1h''),
      Sleep 2, HttpGet ''/time_series'' ''XAU/USD'' (Some ''4h'')] \<and>
   cache_timestamps warm_agg ''price_XAU/USD_15min'' = Some 2 \<and>
   \<not> fresh warm_agg ''price_XAU/USD_15min'' CACHE_TTL_PRICE_DATA (clock second_cycle_world) \<and>
   trace (snd (snd (get_xauusd_data warm_agg second_cycle_world))) =
     [HttpGet ''/quote'' ''XAU/USD'' None,
      HttpGet ''/time_series'' ''XAU/USD'' (Some ''15min''),
      HttpGet ''/time_series'' ''XAU/USD'' (Some ''1h''),
      HttpGet ''/time_series'' ''XAU/USD'' (Some ''4h'')]"
  by code_simp

section \<open>Theorems: the key of the batched quote request\<close>




section \<open>Theorems: the market analysis engine\<close>




text \<open>
  Claim C5. For every technical result, news list and correlation analysis,
  \<^verbatim>\<open>determine_primary_driver\<close> is the first matching rule of the list, in this order:
  \<^verbatim>\<open>Fundamental\<close> if the next event is less than 60 minutes away, \<^verbatim>\<open>Technical\<close> if the RSI
  status is \<^verbatim>\<open>Overbought\<close> or \<^verbatim>\<open>Oversold\<close>, \<^verbatim>\<open>Fundamental\<close> if the absolute basis-point
  change of the 10-year yield exceeds 5, \<^verbatim>\<open>Sentiment\<close> if the absolute percent change of
  the dollar proxy exceeds 0.5, and \<^verbatim>\<open>Technical\<close> when no rule matches.
\<close>

theorem determine_primary_driver_first_match:
  "determine_primary_driver now technical news_events correlation =
     primary_driver_spec now technical news_events correlation"
  by (simp add: determine_primary_driver_def primary_driver_spec_def time_until_def
      next_event_within_60_minutes_def rsi_extreme_def yield_move_exceeds_5bps_def
      dollar_move_exceeds_half_percent_def split: option.splits list.splits)

end
